theory Spec2Isabelle
  imports Complex_Main "HOL-Library.Log_Nat" "HOL-Library.Sublist"
begin

section \<open>Review lifecycle and rating aggregation of the games catalogue backend\<close>

text \<open>
  The development embeds \<^verbatim>\<open>updateGameRating\<close> (utils/ratingCalculator.js) and the
  handlers \<^verbatim>\<open>addReview\<close>, \<^verbatim>\<open>updateReview\<close>, \<^verbatim>\<open>deleteReview\<close> and
  \<^verbatim>\<open>deleteReviewByAdmin\<close> (controllers/reviewController.js).

  Conventions of the embedding:
  \<^item> A JavaScript value is a \<open>jsval\<close>. Only the primitive values that JSON and the two
    stores can carry are modelled (no arrays, no objects). A number is \<open>Num x\<close> with
    the rational \<open>x\<close> it denotes; the numbers of a running program are binary64 values,
    and every arithmetic operation of the code rounds its exact result to the nearest
    binary64 value (\<open>fl\<close>). The exponent range is not bounded above: no sum of fewer
    than \<open>2\<^sup>1\<^sup>0\<^sup>0\<^sup>0\<close> ratings reaches the largest binary64 value. \<open>Num\<close> also stands
    for the infinities, which the checks of this code treat like any number outside
    the range 1..5. \<open>NaN\<close> has a constructor of its own, because it is falsy, unequal
    to itself and fails every comparison.
  \<^item> The conversions between strings and numbers of the JavaScript runtime
    (\<^verbatim>\<open>ToNumber\<close> and \<^verbatim>\<open>parseInt\<close> on a string, \<^verbatim>\<open>ToString\<close> on a number in
    exponent notation) are fields of the environment \<open>env\<close>, together with
    everything else the handlers take from outside: the identifier the review store
    assigns, the clock, and which store calls reject.
  \<^item> A handler is a function from the environment, the request fields and the state
    to the response and the new state. An exception is a value \<open>Inl e\<close>; the state
    reached before it was thrown is kept.
  \<^item> Identifiers (\<open>userId\<close>, \<open>gameId\<close>, \<open>reviewId\<close>) are strings. The review
    collection uses them as opaque keys. The Realtime Database is addressed by paths:
    \<^verbatim>\<open>games/${gameId}\<close> is cut at every \<^verbatim>\<open>/\<close>, also at those inside \<open>gameId\<close>, and
    \<^verbatim>\<open>db.ref\<close> throws on a path with a character the database forbids. The limits of
    the database on the depth and the size of a path are among the reasons for which a
    call to it rejects.
\<close>

subsection \<open>JavaScript values\<close>

datatype jsval = Undefined | Null | Bool bool | Num rat | NaN | Str string

text \<open>\<^verbatim>\<open>!!v\<close>\<close>

fun truthy :: "jsval \<Rightarrow> bool" where
  "truthy Undefined = False"
| "truthy Null = False"
| "truthy (Bool b) = b"
| "truthy (Num x) = (x \<noteq> 0)"
| "truthy NaN = False"
| "truthy (Str s) = (s \<noteq> [])"

text \<open>\<^verbatim>\<open>a === b\<close> on primitive values\<close>

definition strict_eq :: "jsval \<Rightarrow> jsval \<Rightarrow> bool" where
  "strict_eq a b = (a = b \<and> a \<noteq> NaN)"

text \<open>\<^verbatim>\<open>a || b\<close>\<close>

definition js_or :: "jsval \<Rightarrow> jsval \<Rightarrow> jsval" where
  "js_or a b = (if truthy a then a else b)"

fun typeof :: "jsval \<Rightarrow> string" where
  "typeof Undefined = ''undefined''"
| "typeof Null = ''object''"
| "typeof (Bool b) = ''boolean''"
| "typeof (Num x) = ''number''"
| "typeof NaN = ''number''"
| "typeof (Str s) = ''string''"

subsection \<open>The environment of a request\<close>

datatype store_op =
  GameRead | GameUpdate | ReviewGet | ReviewAdd | ReviewUpdate | ReviewDelete | ReviewQuery

datatype error = StoreError store_op

text \<open>
  A JavaScript number as the result of a conversion: \<open>None\<close> is NaN.
  Every handler makes each kind of store call at most once, so \<open>fails\<close> says for each
  kind whether that call rejects.
\<close>

record env =
  StringToNumber :: "string \<Rightarrow> rat option"
  NumberToString :: "rat \<Rightarrow> string"
  parseIntString :: "string \<Rightarrow> rat option"
  autoId :: string
  now :: string
  fails :: "store_op \<Rightarrow> bool"

text \<open>\<^verbatim>\<open>ToNumber(v)\<close>\<close>

fun toNumber :: "env \<Rightarrow> jsval \<Rightarrow> rat option" where
  "toNumber env Undefined = None"
| "toNumber env Null = Some 0"
| "toNumber env (Bool b) = Some (if b then 1 else 0)"
| "toNumber env (Num x) = Some x"
| "toNumber env NaN = None"
| "toNumber env (Str s) = StringToNumber env s"

text \<open>
  \<^verbatim>\<open>v < k\<close>, \<^verbatim>\<open>v > k\<close>, \<^verbatim>\<open>v >= k\<close> and \<^verbatim>\<open>v <= k\<close> against a numeric literal \<open>k\<close>:
  the operand is converted with \<^verbatim>\<open>ToNumber\<close>, and a comparison with NaN is false.
\<close>

definition js_lt :: "env \<Rightarrow> jsval \<Rightarrow> rat \<Rightarrow> bool" where
  "js_lt env v k = (case toNumber env v of None \<Rightarrow> False | Some x \<Rightarrow> x < k)"

definition js_gt :: "env \<Rightarrow> jsval \<Rightarrow> rat \<Rightarrow> bool" where
  "js_gt env v k = (case toNumber env v of None \<Rightarrow> False | Some x \<Rightarrow> x > k)"

definition js_ge :: "env \<Rightarrow> jsval \<Rightarrow> rat \<Rightarrow> bool" where
  "js_ge env v k = (case toNumber env v of None \<Rightarrow> False | Some x \<Rightarrow> x \<ge> k)"

definition js_le :: "env \<Rightarrow> jsval \<Rightarrow> rat \<Rightarrow> bool" where
  "js_le env v k = (case toNumber env v of None \<Rightarrow> False | Some x \<Rightarrow> x \<le> k)"

text \<open>
  \<^verbatim>\<open>ToString\<close> writes a number \<open>x\<close> in plain decimal notation when \<open>x = 0\<close> or
  \<open>10\<^sup>-\<^sup>6 \<le> |x| < 10\<^sup>2\<^sup>1\<close>, and with an exponent otherwise.
\<close>

definition decimal_notation :: "rat \<Rightarrow> bool" where
  "decimal_notation x = (x = 0 \<or> (1 / 10 ^ 6 \<le> \<bar>x\<bar> \<and> \<bar>x\<bar> < 10 ^ 21))"

definition truncate_toward_zero :: "rat \<Rightarrow> int" where
  "truncate_toward_zero x = (if x < 0 then - \<lfloor>- x\<rfloor> else \<lfloor>x\<rfloor>)"

definition of_number :: "rat option \<Rightarrow> jsval" where
  "of_number n = (case n of None \<Rightarrow> NaN | Some x \<Rightarrow> Num x)"

text \<open>
  \<^verbatim>\<open>parseInt(v)\<close> with no radix: the argument is converted to a string, whose longest
  prefix that is an integer literal is read. None of \<^verbatim>\<open>undefined\<close>, \<^verbatim>\<open>null\<close>,
  \<^verbatim>\<open>true\<close>, \<^verbatim>\<open>false\<close> and \<^verbatim>\<open>NaN\<close> starts with a digit; a number in decimal notation
  is cut at its decimal point.
\<close>

fun parseInt :: "env \<Rightarrow> jsval \<Rightarrow> jsval" where
  "parseInt env Undefined = NaN"
| "parseInt env Null = NaN"
| "parseInt env (Bool b) = NaN"
| "parseInt env (Num x) =
     (if decimal_notation x then Num (of_int (truncate_toward_zero x))
      else of_number (parseIntString env (NumberToString env x)))"
| "parseInt env NaN = NaN"
| "parseInt env (Str s) = of_number (parseIntString env s)"

subsection \<open>Binary floating point\<close>

text \<open>
  Rounding to the nearest integer, a tie going to the even one.
\<close>

definition round_half_even :: "rat \<Rightarrow> int" where
  "round_half_even q =
     (let n = \<lfloor>q\<rfloor>; r = q - of_int n
      in if r < 1 / 2 then n else if 1 / 2 < r then n + 1 else if even n then n else n + 1)"

text \<open>The integer \<open>e\<close> with \<open>2\<^sup>e \<le> a < 2\<^sup>e\<^sup>+\<^sup>1\<close>, for a positive \<open>a\<close>.\<close>

definition binary_exponent :: "rat \<Rightarrow> int" where
  "binary_exponent a =
     (if 1 \<le> a then int (floorlog 2 (nat \<lfloor>a\<rfloor>)) - 1
      else - int (floorlog 2 (nat (\<lceil>1 / a\<rceil> - 1))))"

text \<open>
  The binary64 value nearest to \<open>x\<close>, a tie going to the even significand: a
  significand of 53 bits, and steps of \<open>2\<^sup>-\<^sup>1\<^sup>0\<^sup>7\<^sup>4\<close> below \<open>2\<^sup>-\<^sup>1\<^sup>0\<^sup>2\<^sup>2\<close>.
\<close>

definition fl :: "rat \<Rightarrow> rat" where
  "fl x =
     (if x = 0 then 0
      else
        let ulp = 2 powi (max (binary_exponent \<bar>x\<bar> - 52) (- 1074))
        in sgn x * of_int (round_half_even (\<bar>x\<bar> / ulp)) * ulp)"

text \<open>\<^verbatim>\<open>a + b\<close> and \<^verbatim>\<open>a / b\<close> on numbers, \<open>b\<close> not zero\<close>

definition js_add :: "rat \<Rightarrow> rat \<Rightarrow> rat" where
  "js_add a b = fl (a + b)"

definition js_div :: "rat \<Rightarrow> rat \<Rightarrow> rat" where
  "js_div a b = fl (a / b)"

text \<open>
  The number that the string \<^verbatim>\<open>x.toFixed(1)\<close> denotes: \<^verbatim>\<open>toFixed(1)\<close> writes the integer
  \<open>n\<close> for which \<open>n / 10\<close> is nearest to \<open>|x|\<close>, the larger one of two, with the sign of
  \<open>x\<close> in front; from \<open>10\<^sup>2\<^sup>1\<close> on it writes the number itself. The choice is made on the
  exact value of the binary64 number \<open>x\<close>.
\<close>

definition toFixed1 :: "rat \<Rightarrow> rat" where
  "toFixed1 x =
     (if \<bar>x\<bar> \<ge> 10 ^ 21 then x
      else if x < 0 then - (of_int \<lfloor>- x * 10 + 1 / 2\<rfloor> / 10)
      else of_int \<lfloor>x * 10 + 1 / 2\<rfloor> / 10)"

text \<open>\<^verbatim>\<open>parseFloat\<close> of a decimal numeral: the binary64 value nearest to it\<close>

definition parseFloat :: "rat \<Rightarrow> rat" where
  "parseFloat d = fl d"

subsection \<open>The two stores, the console and the state\<close>

text \<open>
  A review document of the Firestore collection \<^verbatim>\<open>reviews\<close>. A field that is missing
  from a document reads as \<open>Undefined\<close>.
\<close>

record review =
  userId :: string
  gameId :: string
  text' :: jsval
  rating :: jsval
  dateTimePosted :: string

text \<open>
  The Realtime Database is a tree of named children with values at its leaves. It is
  kept as the list of its leaves, each with its path from the root. A path is a list of
  names; no leaf of a database lies beneath another one.
\<close>

type_synonym path = "string list"

type_synonym database = "(path \<times> jsval) list"

datatype console_line =
  ConsoleLog string rat rat
| ConsoleError string

text \<open>
  \<open>reviews\<close> lists the documents of the collection with their identifiers.
  \<open>recomputes\<close> is an instrument of the model, not data of the program: the game
  identifiers \<^verbatim>\<open>updateGameRating\<close> has been called with, in order.
\<close>

record state =
  reviews :: "(string \<times> review) list"
  games :: database
  console :: "console_line list"
  recomputes :: "string list"

text \<open>\<^verbatim>\<open>firestore.collection('reviews').doc(id).get()\<close>\<close>

definition get_doc :: "(string \<times> review) list \<Rightarrow> string \<Rightarrow> review option" where
  "get_doc docs rid = map_of docs rid"

text \<open>\<^verbatim>\<open>.add(data)\<close>, with the identifier the store chose\<close>

definition add_doc :: "(string \<times> review) list \<Rightarrow> string \<Rightarrow> review \<Rightarrow> (string \<times> review) list" where
  "add_doc docs rid d = docs @ [(rid, d)]"

text \<open>\<^verbatim>\<open>.doc(id).update({text, rating})\<close>: the two fields are set, the others kept\<close>

definition update_doc ::
  "(string \<times> review) list \<Rightarrow> string \<Rightarrow> jsval \<Rightarrow> jsval \<Rightarrow> (string \<times> review) list" where
  "update_doc docs rid t r =
     map (\<lambda>(k, d). if k = rid then (k, d\<lparr>text' := t, rating := r\<rparr>) else (k, d)) docs"

text \<open>\<^verbatim>\<open>.doc(id).delete()\<close>\<close>

definition delete_doc :: "(string \<times> review) list \<Rightarrow> string \<Rightarrow> (string \<times> review) list" where
  "delete_doc docs rid = filter (\<lambda>(k, d). k \<noteq> rid) docs"

text \<open>\<^verbatim>\<open>.where('gameId', '==', g).get()\<close>\<close>

definition where_gameId :: "(string \<times> review) list \<Rightarrow> string \<Rightarrow> (string \<times> review) list" where
  "where_gameId docs g = filter (\<lambda>(k, d). gameId d = g) docs"

text \<open>
  The path of \<^verbatim>\<open>db.ref(p)\<close>: the string \<open>p\<close> cut at every \<^verbatim>\<open>/\<close>, the empty pieces dropped.
\<close>

fun pieces :: "string \<Rightarrow> string list" where
  "pieces [] = [[]]"
| "pieces (c # cs) =
     (if c = CHR ''/'' then [] # pieces cs else (c # hd (pieces cs)) # tl (pieces cs))"

definition ref_path :: "string \<Rightarrow> path" where
  "ref_path p = filter (\<lambda>k. k \<noteq> []) (pieces p)"

text \<open>
  \<^verbatim>\<open>db.ref(p)\<close> throws when the string \<open>p\<close> is empty or has one of the characters
  \<^verbatim>\<open>[ ] . # $\<close> or an ASCII control character (0 to 31, or 127).
\<close>

definition forbidden_char :: "char \<Rightarrow> bool" where
  "forbidden_char c = (c \<in> set ''[].#$'' \<or> of_char c < (32 :: nat) \<or> of_char c = (127 :: nat))"

definition invalid_path :: "string \<Rightarrow> bool" where
  "invalid_path p = (p = [] \<or> list_ex forbidden_char p)"

text \<open>The value of the leaf at a path, if there is one.\<close>

definition db_get :: "database \<Rightarrow> path \<Rightarrow> jsval option" where
  "db_get db p = map_of db p"

text \<open>
  \<^verbatim>\<open>snapshot.exists()\<close> of the node at a path: there is data at the path or beneath it.
\<close>

definition db_exists :: "database \<Rightarrow> path \<Rightarrow> bool" where
  "db_exists db p = list_ex (\<lambda>(q, v). prefix p q) db"

text \<open>
  Writing a value at a path replaces what was at the path and beneath it, and a leaf
  above the path gives way to the node that now holds the path.
\<close>

definition db_set :: "database \<Rightarrow> path \<Rightarrow> jsval \<Rightarrow> database" where
  "db_set db p v = (p, v) # filter (\<lambda>(q, w). \<not> prefix p q \<and> \<not> prefix q p) db"

text \<open>\<^verbatim>\<open>ref.update({k: v, ...})\<close>: each named child of the node at the path is written.\<close>

definition db_update :: "database \<Rightarrow> path \<Rightarrow> (string \<times> jsval) list \<Rightarrow> database" where
  "db_update db p kvs = foldl (\<lambda>d (k, v). db_set d (p @ [k]) v) db kvs"

text \<open>\<^verbatim>\<open>db.ref(`games/${g}`).once('value')\<close> followed by \<^verbatim>\<open>.exists()\<close>\<close>

definition game_exists :: "database \<Rightarrow> string \<Rightarrow> bool" where
  "game_exists db g = db_exists db (ref_path (''games/'' @ g))"

text \<open>\<^verbatim>\<open>db.ref(`games/${g}`).update({averageRating, totalRatings})\<close>\<close>

definition game_update :: "database \<Rightarrow> string \<Rightarrow> rat \<Rightarrow> rat \<Rightarrow> database" where
  "game_update db g avg cnt =
     db_update db (ref_path (''games/'' @ g))
       [(''averageRating'', Num avg), (''totalRatings'', Num cnt)]"

subsection \<open>The rating aggregator: \<^verbatim>\<open>updateGameRating\<close>\<close>

text \<open>The projection of a value whose \<^verbatim>\<open>typeof\<close> is \<^verbatim>\<open>'number'\<close> and that is not NaN.\<close>

fun number_of :: "jsval \<Rightarrow> rat" where
  "number_of (Num x) = x"
| "number_of v = 0"

text \<open>
  The body of \<^verbatim>\<open>allReviewsSnapshot.forEach\<close>, on the pair of \<^verbatim>\<open>totalRating\<close> and
  \<^verbatim>\<open>count\<close>. The addition is numeric: the condition has established a number that is
  at least 1. \<^verbatim>\<open>count++\<close> is an addition of numbers too.
\<close>

fun forEach_body :: "env \<Rightarrow> review \<Rightarrow> rat \<times> rat \<Rightarrow> rat \<times> rat" where
  "forEach_body env doc (totalRating, count) =
     (if \<not> strict_eq (rating doc) Null \<and> \<not> strict_eq (rating doc) Undefined \<and>
         typeof (rating doc) = ''number'' \<and>
         js_ge env (rating doc) 1 \<and> js_le env (rating doc) 5
      then (js_add totalRating (number_of (rating doc)), js_add count 1)
      else (totalRating, count))"

record rating_result =
  averageRating :: rat
  totalRatings :: rat

definition updateGameRating :: "env \<Rightarrow> string \<Rightarrow> state \<Rightarrow> (error + rating_result) \<times> state" where
  "updateGameRating env gid s0 =
     (let s = s0\<lparr>recomputes := recomputes s0 @ [gid]\<rparr> in
      if fails env ReviewQuery
      then (Inl (StoreError ReviewQuery),
            s\<lparr>console := console s @ [ConsoleError ''Update game rating error:'']\<rparr>)
      else
        let allReviewsSnapshot = where_gameId (reviews s) gid;
            (totalRating, count) = fold (forEach_body env) (map snd allReviewsSnapshot) (0, 0);
            average =
              (if count > 0 then parseFloat (toFixed1 (js_div totalRating count)) else 0)
        in
          if invalid_path (''games/'' @ gid) \<or> fails env GameUpdate
          then (Inl (StoreError GameUpdate),
                s\<lparr>console := console s @ [ConsoleError ''Update game rating error:'']\<rparr>)
          else (Inr \<lparr>averageRating = average, totalRatings = count\<rparr>,
                s\<lparr>games := game_update (games s) gid average count,
                  console := console s @ [ConsoleLog gid average count]\<rparr>))"

subsection \<open>The review lifecycle controller\<close>

datatype body =
  ErrorBody string
| MessageBody string
| AddedBody string string
| DeletedByAdminBody string string string string

record response =
  status :: nat
  json :: body

text \<open>\<^verbatim>\<open>res.status(n).json(b)\<close>, and \<^verbatim>\<open>res.json(b)\<close> with the status 200\<close>

definition respond :: "nat \<Rightarrow> body \<Rightarrow> state \<Rightarrow> response \<times> state" where
  "respond n b s = (\<lparr>status = n, json = b\<rparr>, s)"

text \<open>
  The \<^verbatim>\<open>catch\<close> block of a handler: \<^verbatim>\<open>console.error(label, error)\<close>, then the
  response 500.
\<close>

definition caught :: "string \<Rightarrow> string \<Rightarrow> state \<Rightarrow> response \<times> state" where
  "caught label msg s =
     respond 500 (ErrorBody msg) (s\<lparr>console := console s @ [ConsoleError label]\<rparr>)"

text \<open>The request fields are \<open>uid\<close>, \<open>gid\<close>, \<open>txt\<close> and \<open>rtg\<close> for
  \<^verbatim>\<open>userId\<close>, \<^verbatim>\<open>gameId\<close>, \<^verbatim>\<open>text\<close> and \<^verbatim>\<open>rating\<close> of \<^verbatim>\<open>req.body\<close>, and \<open>rid\<close> for
  \<^verbatim>\<open>req.params.reviewId\<close>.\<close>

definition addReview ::
  "env \<Rightarrow> string \<Rightarrow> string \<Rightarrow> jsval \<Rightarrow> jsval \<Rightarrow> state \<Rightarrow> response \<times> state" where
  "addReview env uid gid txt rtg s =
     (if \<not> truthy txt \<and> \<not> truthy rtg
      then respond 400 (ErrorBody ''Must provide either text, rating, or both'') s
      else if truthy rtg \<and> (js_lt env rtg 1 \<or> js_gt env rtg 5)
      then respond 400 (ErrorBody ''Rating must be between 1 and 5'') s
      else if invalid_path (''games/'' @ gid) \<or> fails env GameRead
      then caught ''Add review error:'' ''Failed to add review'' s
      else if \<not> game_exists (games s) gid
      then respond 404 (ErrorBody ''Game not found'') s
      else
        let reviewData =
              \<lparr>userId = uid, gameId = gid, text' = js_or txt Null,
               rating = (if truthy rtg then parseInt env rtg else Null),
               dateTimePosted = now env\<rparr>
        in
          if fails env ReviewAdd
          then caught ''Add review error:'' ''Failed to add review'' s
          else
            let s1 = s\<lparr>reviews := add_doc (reviews s) (autoId env) reviewData\<rparr>;
                done = respond 201 (AddedBody ''Review added successfully'' (autoId env))
            in
              if truthy rtg
              then (case updateGameRating env gid s1 of
                      (Inl e, s2) \<Rightarrow> caught ''Add review error:'' ''Failed to add review'' s2
                    | (Inr r, s2) \<Rightarrow> done s2)
              else done s1)"

definition updateReview ::
  "env \<Rightarrow> string \<Rightarrow> string \<Rightarrow> jsval \<Rightarrow> jsval \<Rightarrow> state \<Rightarrow> response \<times> state" where
  "updateReview env rid uid txt rtg s =
     (if fails env ReviewGet
      then caught ''Update review error:'' ''Failed to update review'' s
      else
        case get_doc (reviews s) rid of
          None \<Rightarrow> respond 404 (ErrorBody ''Review not found'') s
        | Some reviewData \<Rightarrow>
            if userId reviewData \<noteq> uid
            then respond 403 (ErrorBody ''User can only edit their own reviews'') s
            else if \<not> truthy txt \<and> \<not> truthy rtg
            then respond 400 (ErrorBody ''Must provide either text, rating, or both'') s
            else if truthy rtg \<and> (js_lt env rtg 1 \<or> js_gt env rtg 5)
            then respond 400 (ErrorBody ''Rating must be between 1 and 5'') s
            else if fails env ReviewUpdate
            then caught ''Update review error:'' ''Failed to update review'' s
            else
              let s1 = s\<lparr>reviews :=
                          update_doc (reviews s) rid (js_or txt Null)
                            (if truthy rtg then parseInt env rtg else Null)\<rparr>;
                  done = respond 200 (MessageBody ''Review updated successfully'')
              in
                if \<not> strict_eq rtg (rating reviewData)
                then (case updateGameRating env (gameId reviewData) s1 of
                        (Inl e, s2) \<Rightarrow>
                          caught ''Update review error:'' ''Failed to update review'' s2
                      | (Inr r, s2) \<Rightarrow> done s2)
                else done s1)"

definition deleteReview ::
  "env \<Rightarrow> string \<Rightarrow> string \<Rightarrow> jsval \<Rightarrow> state \<Rightarrow> response \<times> state" where
  "deleteReview env rid uid isAdmin s =
     (if fails env ReviewGet
      then caught ''Delete review error:'' ''Failed to delete review'' s
      else
        case get_doc (reviews s) rid of
          None \<Rightarrow> respond 404 (ErrorBody ''Review not found'') s
        | Some reviewData \<Rightarrow>
            let isOwner = (userId reviewData = uid) in
            if \<not> truthy isAdmin \<and> \<not> isOwner
            then respond 403 (ErrorBody ''User can only delete their own reviews'') s
            else
              let gid = gameId reviewData;
                  hadRating = (\<not> strict_eq (rating reviewData) Null)
              in
                if fails env ReviewDelete
                then caught ''Delete review error:'' ''Failed to delete review'' s
                else
                  let s1 = s\<lparr>reviews := delete_doc (reviews s) rid\<rparr>;
                      done = respond 200 (MessageBody ''Review deleted successfully'')
                  in
                    if hadRating
                    then (case updateGameRating env gid s1 of
                            (Inl e, s2) \<Rightarrow>
                              caught ''Delete review error:'' ''Failed to delete review'' s2
                          | (Inr r, s2) \<Rightarrow> done s2)
                    else done s1)"

definition deleteReviewByAdmin :: "env \<Rightarrow> string \<Rightarrow> state \<Rightarrow> response \<times> state" where
  "deleteReviewByAdmin env rid s =
     (if fails env ReviewGet
      then caught ''Delete review by admin error:'' ''Failed to delete review'' s
      else
        case get_doc (reviews s) rid of
          None \<Rightarrow> respond 404 (ErrorBody ''Review not found'') s
        | Some reviewData \<Rightarrow>
            let gid = gameId reviewData;
                hadRating = (\<not> strict_eq (rating reviewData) Null)
            in
              if fails env ReviewDelete
              then caught ''Delete review by admin error:'' ''Failed to delete review'' s
              else
                let s1 = s\<lparr>reviews := delete_doc (reviews s) rid\<rparr>;
                    done = respond 200
                      (DeletedByAdminBody ''Review deleted successfully by admin''
                         rid gid (userId reviewData))
                in
                  if hadRating
                  then (case updateGameRating env gid s1 of
                          (Inl e, s2) \<Rightarrow>
                            caught ''Delete review by admin error:'' ''Failed to delete review'' s2
                        | (Inr r, s2) \<Rightarrow> done s2)
                  else done s1)"

text \<open>
  The routes of the review router (\<^verbatim>\<open>POST /\<close>, \<^verbatim>\<open>PUT /:reviewId\<close>,
  \<^verbatim>\<open>DELETE /:reviewId\<close>, \<^verbatim>\<open>DELETE /admin/:reviewId\<close>) that change a review, each with
  the request fields its handler reads.
\<close>

datatype request =
  PostReview string string jsval jsval
| PutReview string string jsval jsval
| DeleteReview string string jsval
| DeleteReviewAdmin string

fun handle :: "env \<Rightarrow> request \<Rightarrow> state \<Rightarrow> response \<times> state" where
  "handle env (PostReview uid gid txt rtg) s = addReview env uid gid txt rtg s"
| "handle env (PutReview rid uid txt rtg) s = updateReview env rid uid txt rtg s"
| "handle env (DeleteReview rid uid isAdmin) s = deleteReview env rid uid isAdmin s"
| "handle env (DeleteReviewAdmin rid) s = deleteReviewByAdmin env rid s"

section \<open>Notions of the specification\<close>

text \<open>
  A rating counts when it is a number in the closed range from 1 to 5; the valid ratings
  of a game are those of its reviews, in the order of the collection.
\<close>

fun rating_in_range :: "jsval \<Rightarrow> rat option" where
  "rating_in_range (Num x) = (if 1 \<le> x \<and> x \<le> 5 then Some x else None)"
| "rating_in_range v = None"

definition valid_ratings :: "(string \<times> review) list \<Rightarrow> string \<Rightarrow> rat list" where
  "valid_ratings docs g =
     List.map_filter (\<lambda>(k, d). if gameId d = g then rating_in_range (rating d) else None) docs"

text \<open>The value of the child \<open>f\<close> of the node \<^verbatim>\<open>games/<g>\<close>.\<close>

definition game_field :: "state \<Rightarrow> string \<Rightarrow> string \<Rightarrow> jsval option" where
  "game_field s g f = db_get (games s) (ref_path (''games/'' @ g) @ [f])"

text \<open>
  The two ways of rounding to one decimal place that the specification names: a tie
  goes away from zero, or to the even last digit.
\<close>

definition round1_half_away :: "rat \<Rightarrow> rat" where
  "round1_half_away x = sgn x * of_int \<lfloor>\<bar>x\<bar> * 10 + 1 / 2\<rfloor> / 10"

definition round1_half_even :: "rat \<Rightarrow> rat" where
  "round1_half_even x = of_int (round_half_even (x * 10)) / 10"


section \<open>Sample data\<close>

text \<open>
  An environment in which every store call succeeds, and one in which the write to the
  game store rejects. No sample passes a string where a number is read, so the string
  conversions of the samples are never called.
\<close>

definition env_ok :: env where
  "env_ok =
     \<lparr>StringToNumber = (\<lambda>s. None), NumberToString = (\<lambda>x. []), parseIntString = (\<lambda>s. None),
      autoId = ''r9'', now = ''2024-01-01T00:00:00.000Z'', fails = (\<lambda>p. False)\<rparr>"

definition env_write_fails :: env where
  "env_write_fails = env_ok\<lparr>fails := (\<lambda>p. p = GameUpdate)\<rparr>"

definition mk_review :: "string \<Rightarrow> string \<Rightarrow> jsval \<Rightarrow> jsval \<Rightarrow> review" where
  "mk_review u g t r =
     \<lparr>userId = u, gameId = g, text' = t, rating = r,
      dateTimePosted = ''2023-12-31T00:00:00.000Z''\<rparr>"

text \<open>
  Game \<open>g1\<close> with the reviews of the scenario of the specification (ratings 5 and 3 and
  an unrated review), game \<open>g2\<close> with a single rated review.
\<close>

definition sample_state :: state where
  "sample_state =
     \<lparr>reviews =
        [(''r1'', mk_review ''u1'' ''g1'' Null (Num 5)),
         (''r2'', mk_review ''u2'' ''g1'' (Str ''fine'') (Num 3)),
         (''r3'', mk_review ''u3'' ''g1'' (Str ''ok'') Null),
         (''r4'', mk_review ''u1'' ''g2'' (Str ''weak'') (Num 2))],
      games =
        [([''games'', ''g1'', ''title''], Str ''One''),
         ([''games'', ''g1'', ''averageRating''], Num 4),
         ([''games'', ''g1'', ''totalRatings''], Num 2),
         ([''games'', ''g2'', ''title''], Str ''Two''),
         ([''games'', ''g2'', ''averageRating''], Num 2),
         ([''games'', ''g2'', ''totalRatings''], Num 1)],
      console = [],
      recomputes = []\<rparr>"

text \<open>
  Two reviews of \<open>g1\<close> whose ratings are the binary64 values \<open>4.25 - 2\<^sup>-\<^sup>5\<^sup>0\<close> and \<open>4.25\<close>,
  as an earlier writer of the collection may have left them.
\<close>

definition legacy_state :: state where
  "legacy_state =
     sample_state\<lparr>reviews :=
       [(''r1'', mk_review ''u1'' ''g1'' Null (Num (17 / 4 - 1 / 2 ^ 50))),
        (''r2'', mk_review ''u2'' ''g1'' Null (Num (17 / 4)))]\<rparr>"

text \<open>
  Twenty reviews of \<open>g1\<close>, seventeen with the rating 1 and three with the rating 2, as
  \<^verbatim>\<open>addReview\<close> stores them: their mean is 1.15.
\<close>

definition tie_state :: state where
  "tie_state =
     sample_state\<lparr>reviews :=
       [(''t01'', mk_review ''u01'' ''g1'' Null (Num 1)),
        (''t02'', mk_review ''u02'' ''g1'' Null (Num 1)),
        (''t03'', mk_review ''u03'' ''g1'' Null (Num 1)),
        (''t04'', mk_review ''u04'' ''g1'' Null (Num 1)),
        (''t05'', mk_review ''u05'' ''g1'' Null (Num 1)),
        (''t06'', mk_review ''u06'' ''g1'' Null (Num 1)),
        (''t07'', mk_review ''u07'' ''g1'' Null (Num 1)),
        (''t08'', mk_review ''u08'' ''g1'' Null (Num 1)),
        (''t09'', mk_review ''u09'' ''g1'' Null (Num 1)),
        (''t10'', mk_review ''u10'' ''g1'' Null (Num 1)),
        (''t11'', mk_review ''u11'' ''g1'' Null (Num 1)),
        (''t12'', mk_review ''u12'' ''g1'' Null (Num 1)),
        (''t13'', mk_review ''u13'' ''g1'' Null (Num 1)),
        (''t14'', mk_review ''u14'' ''g1'' Null (Num 1)),
        (''t15'', mk_review ''u15'' ''g1'' Null (Num 1)),
        (''t16'', mk_review ''u16'' ''g1'' Null (Num 1)),
        (''t17'', mk_review ''u17'' ''g1'' Null (Num 1)),
        (''t18'', mk_review ''u18'' ''g1'' Null (Num 2)),
        (''t19'', mk_review ''u19'' ''g1'' Null (Num 2)),
        (''t20'', mk_review ''u20'' ''g1'' Null (Num 2))]\<rparr>"

section \<open>Facts about rounding to binary64\<close>

lemma round_half_even_err: "\<bar>of_int (round_half_even q) - q\<bar> \<le> 1 / 2"
proof -
  have "of_int \<lfloor>q\<rfloor> \<le> q" "q < of_int \<lfloor>q\<rfloor> + 1" by linarith+
  then show ?thesis
    unfolding round_half_even_def Let_def by (simp split: if_splits)
qed

lemma round_half_even_of_int: "round_half_even (of_int j) = j"
  by (simp add: round_half_even_def)

lemma binary_exponent_ge1:
  assumes "1 \<le> a"
  shows "2 powi (binary_exponent a) \<le> a \<and> a < 2 powi (binary_exponent a + 1) \<and>
         0 \<le> binary_exponent a"
proof -
  define n where "n = nat \<lfloor>a\<rfloor>"
  from assms have n: "0 < n" "of_nat n \<le> a" "a < of_nat n + 1"
    unfolding n_def by (simp_all; linarith)+
  define L where "L = floorlog 2 n"
  from floorlog_bounds [of n 2] n(1) have b: "2 ^ (L - 1) \<le> n" "n < 2 ^ L"
    by (simp_all add: L_def)
  from b(2) n(1) have L: "0 < L" by (cases L) auto
  have e: "binary_exponent a = int L - 1"
    using assms by (simp add: binary_exponent_def L_def n_def)
  have p1: "(2::rat) powi (int L - 1) = 2 ^ (L - 1)"
    using L by (simp add: power_int_def nat_diff_distrib of_nat_diff)
  have p2: "(2::rat) powi (int L - 1 + 1) = 2 ^ L"
    by simp
  from b(1) have "(of_nat (2 ^ (L - 1)) :: rat) \<le> of_nat n" by (simp only: of_nat_le_iff)
  then have "(2::rat) ^ (L - 1) \<le> of_nat n" by (simp only: of_nat_power of_nat_numeral)
  with n(2) have lo: "(2::rat) ^ (L - 1) \<le> a" by linarith
  from b(2) have "n + 1 \<le> 2 ^ L" by simp
  then have "(of_nat (n + 1) :: rat) \<le> of_nat (2 ^ L)" by (simp only: of_nat_le_iff)
  then have "(of_nat n :: rat) + 1 \<le> 2 ^ L" by simp
  with n(3) have hi: "a < 2 ^ L" by linarith
  from lo hi L show ?thesis unfolding e p1 p2 by simp
qed

lemma binary_exponent_lt1:
  assumes "0 < a" and "a < 1"
  shows "2 powi (binary_exponent a) \<le> a \<and> a < 2 powi (binary_exponent a + 1)"
proof -
  define y where "y = 1 / a"
  from assms have y1: "1 < y" by (simp add: y_def)
  define m where "m = nat (\<lceil>y\<rceil> - 1)"
  have c: "of_int \<lceil>y\<rceil> - 1 < y" "y \<le> of_int \<lceil>y\<rceil>" by linarith+
  from y1 have "2 \<le> \<lceil>y\<rceil>" by linarith
  then have m: "0 < m" "of_nat m = (of_int \<lceil>y\<rceil> - 1 :: rat)"
    by (simp_all add: m_def)
  from m(2) c have my: "of_nat m < y" "y \<le> of_nat m + 1" by simp_all
  define L where "L = floorlog 2 m"
  from floorlog_bounds [of m 2] m(1) have b: "2 ^ (L - 1) \<le> m" "m < 2 ^ L"
    by (simp_all add: L_def)
  from b(2) m(1) have L: "0 < L" by (cases L) auto
  have e: "binary_exponent a = - int L"
    using assms by (simp add: binary_exponent_def L_def m_def y_def)
  have p1: "(2::rat) powi (- int L) = 1 / 2 ^ L"
    by (simp add: power_int_minus_divide)
  have p2: "(2::rat) powi (- int L + 1) = 1 / 2 ^ (L - 1)"
  proof -
    have "- int L + 1 = - int (L - 1)" using L by simp
    then show ?thesis by (simp only: power_int_minus_divide power_int_of_nat)
  qed
  from b(1) have "(of_nat (2 ^ (L - 1)) :: rat) \<le> of_nat m" by (simp only: of_nat_le_iff)
  then have "(2::rat) ^ (L - 1) \<le> of_nat m" by (simp only: of_nat_power of_nat_numeral)
  with my(1) have lo: "(2::rat) ^ (L - 1) < y" by linarith
  from b(2) have "m + 1 \<le> 2 ^ L" by simp
  then have "(of_nat (m + 1) :: rat) \<le> of_nat (2 ^ L)" by (simp only: of_nat_le_iff)
  then have "(of_nat m :: rat) + 1 \<le> 2 ^ L" by simp
  with my(2) have hi: "y \<le> 2 ^ L" by linarith
  from hi assms(1) have "1 / 2 ^ L \<le> a"
    by (simp add: y_def field_simps)
  moreover from lo assms(1) have "a < 1 / 2 ^ (L - 1)"
    by (simp add: y_def field_simps)
  ultimately show ?thesis unfolding e p1 p2 by simp
qed

lemma binary_exponent_bounds:
  assumes "0 < a"
  shows "2 powi (binary_exponent a) \<le> a \<and> a < 2 powi (binary_exponent a + 1)"
  using binary_exponent_ge1 [of a] binary_exponent_lt1 [of a] assms
  by (cases "1 \<le> a") simp_all

lemma binary_exponent_unique:
  assumes "0 < a" and lo: "2 powi e \<le> a" and hi: "a < 2 powi (e + 1)"
  shows "binary_exponent a = e"
proof -
  let ?b = "binary_exponent a"
  from binary_exponent_bounds [OF assms(1)]
  have b: "2 powi ?b \<le> a" "a < 2 powi (?b + 1)" by simp_all
  have "\<not> e < ?b"
  proof
    assume "e < ?b"
    then have "(2::rat) powi (e + 1) \<le> 2 powi ?b"
      by (intro power_int_increasing) simp_all
    with b(1) hi show False by linarith
  qed
  moreover have "\<not> ?b < e"
  proof
    assume "?b < e"
    then have "(2::rat) powi (?b + 1) \<le> 2 powi e"
      by (intro power_int_increasing) simp_all
    with b(2) lo show False by linarith
  qed
  ultimately show ?thesis by linarith
qed

lemma fl_ge1:
  assumes "1 \<le> x"
  shows "fl x = of_int (round_half_even (x / 2 powi (binary_exponent x - 52))) *
                  2 powi (binary_exponent x - 52)"
proof -
  from binary_exponent_ge1 [OF assms] have "0 \<le> binary_exponent x" by simp
  then have "max (binary_exponent x - 52) (- 1074) = binary_exponent x - 52" by simp
  with assms show ?thesis
    by (simp add: fl_def Let_def)
qed

lemma fl_at:
  assumes "1 \<le> x" and "2 powi e \<le> x" and "x < 2 powi (e + 1)"
  shows "fl x = of_int (round_half_even (x / 2 powi (e - 52))) * 2 powi (e - 52)"
proof -
  from assms(1) have "0 < x" by simp
  from binary_exponent_unique [OF this assms(2,3)] fl_ge1 [OF assms(1)] show ?thesis by simp
qed

lemma fl_err:
  assumes "1 \<le> x"
  shows "\<bar>fl x - x\<bar> \<le> x / 2 ^ 53"
proof -
  define e where "e = binary_exponent x"
  define u :: rat where "u = 2 powi (e - 52)"
  define r where "r = round_half_even (x / u)"
  have u: "0 < u" by (simp add: u_def)
  from binary_exponent_ge1 [OF assms] have lo: "2 powi e \<le> x" by (simp add: e_def)
  have ue: "u = 2 powi e / 2 ^ 52"
    by (simp add: u_def power_int_diff)
  have "fl x = of_int r * u"
    using fl_ge1 [OF assms] by (simp add: r_def u_def e_def)
  then have "fl x - x = (of_int r - x / u) * u"
    using u by (simp add: field_simps)
  then have "\<bar>fl x - x\<bar> = \<bar>of_int r - x / u\<bar> * u"
    using u by (simp add: abs_mult)
  also have "\<dots> \<le> (1 / 2) * u"
    using round_half_even_err [of "x / u"] u unfolding r_def
    by (intro mult_right_mono) simp_all
  also have "\<dots> = 2 powi e / 2 ^ 53" by (simp add: ue)
  also have "\<dots> \<le> x / 2 ^ 53" using lo by (simp add: divide_right_mono)
  finally show ?thesis .
qed

lemma fl_of_int:
  assumes "0 \<le> k" and "k \<le> 2 ^ 53"
  shows "fl (of_int k) = of_int k"
proof (cases "k = 0")
  case True
  then show ?thesis by (simp add: fl_def)
next
  case False
  with assms have k1: "1 \<le> (of_int k :: rat)" by simp
  define e where "e = binary_exponent (of_int k)"
  from binary_exponent_ge1 [OF k1]
  have lo: "2 powi e \<le> (of_int k :: rat)" and e0: "0 \<le> e" by (simp_all add: e_def)
  have le: "e \<le> 53"
  proof (rule ccontr)
    assume "\<not> e \<le> 53"
    then have "54 \<le> e" by simp
    then have "(2::rat) powi 54 \<le> 2 powi e" by (intro power_int_increasing) simp_all
    with lo have "(2::rat) ^ 54 \<le> of_int k" by simp
    moreover from assms(2) have "(of_int k :: rat) \<le> of_int (2 ^ 53)" by (simp only: of_int_le_iff)
    ultimately show False by simp
  qed
  have "\<exists>j. (of_int k :: rat) / 2 powi (e - 52) = of_int j"
  proof (cases "e \<le> 52")
    case True
    then have "(2::rat) powi (e - 52) = 1 / 2 ^ nat (52 - e)"
      by (simp add: power_int_def nat_diff_distrib power_one_over)
    then have "(of_int k :: rat) / 2 powi (e - 52) = of_int (k * 2 ^ nat (52 - e))" by simp
    then show ?thesis by blast
  next
    case False
    with le have e: "e = 53" by simp
    with lo have "(of_int (2 ^ 53) :: rat) \<le> of_int k" by simp
    then have "2 ^ 53 \<le> k" by (simp only: of_int_le_iff)
    with assms(2) have "k = 2 ^ 53" by simp
    then have "(of_int k :: rat) / 2 powi (e - 52) = of_int (2 ^ 52)" by (simp add: e)
    then show ?thesis by blast
  qed
  then obtain j where j: "(of_int k :: rat) / 2 powi (e - 52) = of_int j" ..
  have "fl (of_int k) = of_int j * 2 powi (e - 52)"
    using fl_ge1 [OF k1] by (simp add: e_def [symmetric] j round_half_even_of_int)
  also have "\<dots> = of_int k" using j [symmetric] by simp
  finally show ?thesis .
qed

lemma fl_Ints:
  assumes "z \<in> \<int>" and "0 \<le> z" and "z \<le> 2 ^ 53"
  shows "fl z = z"
proof -
  from assms(1) obtain k where k: "z = of_int k" by (rule Ints_cases)
  with assms(2) have "0 \<le> k" by simp
  moreover from assms(3) k have "(of_int k :: rat) \<le> of_int (2 ^ 53)" by simp
  then have "k \<le> 2 ^ 53" by (simp only: of_int_le_iff)
  ultimately show ?thesis unfolding k by (rule fl_of_int)
qed

lemma fl_numeral [simp]: "numeral w \<le> (2 ^ 53 :: rat) \<Longrightarrow> fl (numeral w) = numeral w"
  by (rule fl_Ints) simp_all

lemma fl_0 [simp]: "fl 0 = 0"
  by (simp add: fl_def)

lemma fl_1 [simp]: "fl 1 = 1"
  by (rule fl_Ints) simp_all

section \<open>Facts about the aggregator and the stores\<close>

lemma forEach_body_eq:
  "forEach_body env d (t, c) =
     (case rating_in_range (rating d) of
        None \<Rightarrow> (t, c)
      | Some x \<Rightarrow> (js_add t x, js_add c 1))"
  by (cases "rating d") (simp_all add: strict_eq_def js_ge_def js_le_def)

lemma fold_forEach_body:
  "fold (forEach_body env) (map snd (where_gameId docs g)) (t, c) =
     (foldl js_add t (valid_ratings docs g),
      foldl (\<lambda>c x. js_add c 1) c (valid_ratings docs g))"
proof (induction docs arbitrary: t c)
  case Nil
  show ?case by (simp add: where_gameId_def valid_ratings_def)
next
  case (Cons kd docs)
  obtain k d where kd: "kd = (k, d)" by (cases kd)
  show ?case
  proof (cases "gameId d = g")
    case False
    with Cons kd show ?thesis
      by (simp add: where_gameId_def valid_ratings_def)
  next
    case True
    show ?thesis
    proof (cases "rating_in_range (rating d)")
      case None
      with True kd Cons [of t c] show ?thesis
        by (simp add: where_gameId_def valid_ratings_def forEach_body_eq
            del: forEach_body.simps)
    next
      case (Some x)
      with True kd Cons [of "js_add t x" "js_add c 1"] show ?thesis
        by (simp add: where_gameId_def valid_ratings_def forEach_body_eq
            del: forEach_body.simps)
    qed
  qed
qed

lemma rating_in_range_bounds: "rating_in_range v = Some x \<Longrightarrow> 1 \<le> x \<and> x \<le> 5"
  by (cases v) (auto split: if_splits)

lemma valid_ratings_bounds: "x \<in> set (valid_ratings docs g) \<Longrightarrow> 1 \<le> x \<and> x \<le> 5"
  by (auto simp: valid_ratings_def List.map_filter_def split: if_splits
      dest: rating_in_range_bounds)

lemma sum_list_bounds:
  fixes vs :: "rat list"
  assumes "\<forall>x \<in> set vs. 1 \<le> x \<and> x \<le> 5"
  shows "of_nat (length vs) \<le> sum_list vs \<and> sum_list vs \<le> 5 * of_nat (length vs)"
  using assms by (induction vs) (auto simp: algebra_simps)

lemma sum_list_Ints:
  fixes vs :: "rat list"
  assumes "set vs \<subseteq> \<int>"
  shows "sum_list vs \<in> \<int>"
  using assms by (induction vs) auto

text \<open>Counting is exact up to \<open>2\<^sup>5\<^sup>3\<close>.\<close>

lemma float_count_exact:
  assumes "c + length vs \<le> 2 ^ 53"
  shows "foldl (\<lambda>c x. js_add c 1) (of_nat c) vs = of_nat (c + length vs)"
  using assms
proof (induction vs arbitrary: c)
  case Nil
  show ?case by simp
next
  case (Cons v vs)
  from Cons.prems have le: "Suc c \<le> 2 ^ 53" and rest: "Suc c + length vs \<le> 2 ^ 53" by simp_all
  from le have "(of_nat (Suc c) :: rat) \<le> of_nat (2 ^ 53)" by (simp only: of_nat_le_iff)
  then have "(of_nat (Suc c) :: rat) \<le> 2 ^ 53" by simp
  then have "fl (of_nat (Suc c)) = of_nat (Suc c)"
    by (intro fl_Ints) simp_all
  then have "js_add (of_nat c) 1 = of_nat (Suc c)"
    by (simp add: js_add_def add.commute)
  with Cons.IH [OF rest] show ?case by simp
qed

text \<open>Adding integers from 1 to 5 is exact as long as the sum stays below \<open>2\<^sup>5\<^sup>3\<close>.\<close>

lemma float_sum_exact:
  fixes vs :: "rat list"
  assumes "set vs \<subseteq> \<int>" and "\<forall>x \<in> set vs. 1 \<le> x \<and> x \<le> 5"
    and "t \<in> \<int>" and "0 \<le> t" and "t + 5 * of_nat (length vs) \<le> 2 ^ 53"
  shows "foldl js_add t vs = t + sum_list vs"
  using assms
proof (induction vs arbitrary: t)
  case Nil
  show ?case by simp
next
  case (Cons v vs)
  from Cons.prems have v: "v \<in> \<int>" "1 \<le> v" "v \<le> 5" by simp_all
  from Cons.prems v have "t + v \<le> t + 5 * of_nat (length (v # vs))" by simp
  with Cons.prems v have tv: "t + v \<in> \<int>" "0 \<le> t + v" "t + v \<le> 2 ^ 53"
    by (simp_all del: list.size length_Cons)
  then have step: "js_add t v = t + v" by (simp add: js_add_def fl_Ints)
  from Cons.prems v have "t + v + 5 * of_nat (length vs) \<le> 2 ^ 53"
    by (simp add: algebra_simps)
  with Cons.prems tv have "foldl js_add (t + v) vs = t + v + sum_list vs"
    by (intro Cons.IH) simp_all
  with step show ?case by (simp add: add.assoc)
qed

text \<open>
  A quotient of integers that is rounded with an error below \<open>1 / (20 N)\<close> rounds to
  a tenth that is at most one twentieth away from the quotient itself.
\<close>

lemma tenth_near_mean:
  fixes S N :: int and x :: rat
  assumes N: "0 < N" "N \<le> 2 ^ 46"
    and x: "\<bar>x - of_int S / of_int N\<bar> \<le> 5 / 2 ^ 53"
  shows "\<bar>of_int \<lfloor>x * 10 + 1 / 2\<rfloor> / 10 - (of_int S / of_int N :: rat)\<bar> \<le> 1 / 20"
proof -
  define q :: rat where "q = of_int N"
  define m :: rat where "m = of_int S / q"
  define n where "n = \<lfloor>x * 10 + 1 / 2\<rfloor>"
  from N have q: "0 < q" by (simp add: q_def)
  from N(2) have "(of_int N :: rat) \<le> of_int (2 ^ 46)" by (simp only: of_int_le_iff)
  then have q46: "q \<le> 2 ^ 46" by (simp add: q_def)
  have mq: "m * q = of_int S" using q by (simp add: m_def)
  from x have "\<bar>x - m\<bar> \<le> 5 / 2 ^ 53" by (simp only: m_def q_def)
  then have xm: "x \<le> m + 5 / 2 ^ 53" "m - 5 / 2 ^ 53 \<le> x"
    by linarith+
  have fl: "of_int n \<le> x * 10 + 1 / 2" "x * 10 + 1 / 2 < of_int n + 1"
    unfolding n_def by linarith+
  have small: "100 * q / 2 ^ 53 < 1" using q46 by simp
  from fl(1) xm(1) have "of_int n \<le> 10 * m + 1 / 2 + 50 / 2 ^ 53" by linarith
  then have "of_int n * (2 * q) \<le> (10 * m + 1 / 2 + 50 / 2 ^ 53) * (2 * q)"
    using q by (intro mult_right_mono) simp_all
  also have "\<dots> = 20 * (m * q) + q + 100 * q / 2 ^ 53" by (simp add: algebra_simps)
  also have "\<dots> < 20 * of_int S + q + 1" using small by (simp add: mq)
  finally have "(of_int (n * (2 * N)) :: rat) < of_int (20 * S + N + 1)"
    by (simp add: q_def)
  then have "n * (2 * N) < 20 * S + N + 1" by (simp only: of_int_less_iff)
  then have "n * (2 * N) \<le> 20 * S + N" by simp
  then have "(of_int (n * (2 * N)) :: rat) \<le> of_int (20 * S + N)" by (simp only: of_int_le_iff)
  then have up: "of_int n * (2 * q) \<le> 20 * (m * q) + q" by (simp add: q_def mq [symmetric, unfolded q_def])
  from fl(2) xm(2) have "10 * m - 1 / 2 - 50 / 2 ^ 53 < of_int n" by linarith
  then have "(10 * m - 1 / 2 - 50 / 2 ^ 53) * (2 * q) < of_int n * (2 * q)"
    using q by (intro mult_strict_right_mono) simp_all
  moreover have "(10 * m - 1 / 2 - 50 / 2 ^ 53) * (2 * q) = 20 * (m * q) - q - 100 * q / 2 ^ 53"
    by (simp add: algebra_simps)
  moreover have "20 * of_int S - q - 1 < 20 * (m * q) - q - 100 * q / 2 ^ 53"
    using small by (simp add: mq)
  ultimately have "(of_int (20 * S - N - 1) :: rat) < of_int (n * (2 * N))"
    by (simp add: q_def)
  then have "20 * S - N - 1 < n * (2 * N)" by (simp only: of_int_less_iff)
  then have "20 * S - N \<le> n * (2 * N)" by simp
  then have "(of_int (20 * S - N) :: rat) \<le> of_int (n * (2 * N))" by (simp only: of_int_le_iff)
  then have lo: "20 * (m * q) - q \<le> of_int n * (2 * q)" by (simp add: q_def mq [symmetric, unfolded q_def])
  define A where "A = of_int n * (2 * q) - 20 * (m * q)"
  have "of_int n / 10 - m = A / (20 * q)"
    using q by (simp add: A_def field_simps)
  then have "\<bar>of_int n / 10 - m\<bar> = \<bar>A\<bar> / (20 * q)"
    using q by (simp only: abs_divide)
  also have "\<bar>A\<bar> \<le> q" using up lo unfolding A_def by linarith
  then have "\<bar>A\<bar> / (20 * q) \<le> q / (20 * q)"
    using q by (intro divide_right_mono) simp_all
  also have "q / (20 * q) = 1 / 20" using q by simp
  finally show ?thesis by (simp only: n_def m_def q_def)
qed

lemma pieces_key: "CHR ''/'' \<notin> set k \<Longrightarrow> pieces k = [k]"
  by (induction k) auto

lemma pieces_games: "pieces (''games/'' @ g) = ''games'' # pieces g"
  by simp

lemma ref_path_games: "ref_path (''games/'' @ g) = ''games'' # ref_path g"
  by (simp add: ref_path_def)

lemma ref_path_key: "CHR ''/'' \<notin> set k \<Longrightarrow> k \<noteq> [] \<Longrightarrow> ref_path k = [k]"
  by (simp add: ref_path_def pieces_key)

lemma map_of_filter_key:
  "map_of (filter (\<lambda>(q, w). P q) xs) k = (if P k then map_of xs k else None)"
  by (induction xs) auto

lemma db_get_db_set:
  "db_get (db_set db p v) q =
     (if q = p then Some v
      else if prefix p q \<or> prefix q p then None
      else db_get db q)"
  by (auto simp: db_get_def db_set_def map_of_filter_key)

lemma db_get_game_update:
  "db_get (game_update db g a c) q =
     (let p = ref_path (''games/'' @ g) in
      if q = p @ [''totalRatings''] then Some (Num c)
      else if prefix (p @ [''totalRatings'']) q \<or> prefix q (p @ [''totalRatings'']) then None
      else if q = p @ [''averageRating''] then Some (Num a)
      else if prefix (p @ [''averageRating'']) q \<or> prefix q (p @ [''averageRating'']) then None
      else db_get db q)"
  by (simp add: game_update_def db_update_def db_get_db_set Let_def)

lemma game_update_written:
  "db_get (game_update db g a c) (ref_path (''games/'' @ g) @ [''averageRating'']) = Some (Num a)"
  "db_get (game_update db g a c) (ref_path (''games/'' @ g) @ [''totalRatings'']) = Some (Num c)"
  by (simp_all add: db_get_game_update Let_def)

lemma game_update_frame:
  assumes "CHR ''/'' \<notin> set g" and "g \<noteq> []"
    and "g' \<noteq> g \<or> (f \<noteq> ''averageRating'' \<and> f \<noteq> ''totalRatings'')"
  shows "db_get (game_update db g a c) (''games'' # g' # f # rest) =
         db_get db (''games'' # g' # f # rest)"
proof -
  have "ref_path (''games/'' @ g) = [''games'', g]"
    unfolding ref_path_games using assms(1,2) by (simp add: ref_path_key)
  with assms(3) show ?thesis
    unfolding db_get_game_update Let_def by auto
qed

lemma game_update_idem: "game_update (game_update db g a c) g a c = game_update db g a c"
  by (auto simp: game_update_def db_update_def db_set_def intro!: filter_cong)

lemma updateGameRating_success:
  assumes "\<not> fails env ReviewQuery" and "\<not> fails env GameUpdate"
    and "\<not> invalid_path (''games/'' @ g)"
  shows "updateGameRating env g s =
     (let vs = valid_ratings (reviews s) g;
          t = foldl js_add 0 vs;
          c = foldl (\<lambda>c x. js_add c 1) 0 vs;
          avg = (if c > 0 then parseFloat (toFixed1 (js_div t c)) else 0)
      in (Inr \<lparr>averageRating = avg, totalRatings = c\<rparr>,
          s\<lparr>recomputes := recomputes s @ [g],
            games := game_update (games s) g avg c,
            console := console s @ [ConsoleLog g avg c]\<rparr>))"
  using assms fold_forEach_body [of env "reviews s" g 0 0]
  by (simp add: updateGameRating_def Let_def)

lemma updateGameRating_Inl:
  assumes "updateGameRating env g s = (Inl e, s')"
  shows "(fails env ReviewQuery \<or> fails env GameUpdate \<or> invalid_path (''games/'' @ g)) \<and>
         s' = s\<lparr>recomputes := recomputes s @ [g],
                console := console s @ [ConsoleError ''Update game rating error:'']\<rparr>"
  using assms by (auto simp: updateGameRating_def Let_def split: prod.splits if_splits)

lemma updateGameRating_Inr:
  assumes "updateGameRating env g s = (Inr r, s')"
  shows "\<not> fails env ReviewQuery \<and> \<not> fails env GameUpdate \<and>
         \<not> invalid_path (''games/'' @ g) \<and>
         reviews s' = reviews s \<and> recomputes s' = recomputes s @ [g] \<and>
         games s' = game_update (games s) g (averageRating r) (totalRatings r) \<and>
         console s' = console s @ [ConsoleLog g (averageRating r) (totalRatings r)]"
  using assms by (auto simp: updateGameRating_def Let_def split: prod.splits if_splits)

text \<open>
  The average of integer ratings: the decimal that \<^verbatim>\<open>toFixed(1)\<close> writes for the rounded
  quotient is a tenth at most one twentieth away from the mean.
\<close>

lemma average_of_integers:
  fixes vs :: "rat list"
  assumes "vs \<noteq> []" and "set vs \<subseteq> \<int>" and "\<forall>x \<in> set vs. 1 \<le> x \<and> x \<le> 5"
    and "length vs \<le> 2 ^ 46"
  shows "\<exists>n::int. toFixed1 (js_div (sum_list vs) (of_nat (length vs))) = of_int n / 10 \<and>
           \<bar>of_int n / 10 - sum_list vs / of_nat (length vs)\<bar> \<le> 1 / 20"
proof -
  define N where "N = int (length vs)"
  from assms(1,4) have N: "0 < N" "N \<le> 2 ^ 46" by (simp_all add: N_def)
  from sum_list_Ints [OF assms(2)] obtain S where S: "sum_list vs = of_int S"
    by (rule Ints_cases)
  define m :: rat where "m = of_int S / of_int N"
  have len: "(of_nat (length vs) :: rat) = of_int N" by (simp add: N_def)
  from sum_list_bounds [OF assms(3)] N(1)
  have "of_int N \<le> (of_int S :: rat)" "(of_int S :: rat) \<le> 5 * of_int N"
    by (simp_all add: S len)
  with N(1) have m: "1 \<le> m" "m \<le> 5" by (simp_all add: m_def field_simps)
  define x where "x = fl m"
  from fl_err [OF m(1)] m(2) have "\<bar>x - m\<bar> \<le> 5 / 2 ^ 53"
    unfolding x_def by (simp add: field_simps)
  then have err: "\<bar>x - of_int S / of_int N\<bar> \<le> 5 / 2 ^ 53" by (simp only: m_def)
  have "(5::rat) / 2 ^ 53 \<le> 1" "(6::rat) < 10 ^ 21" by simp_all
  with m \<open>\<bar>x - m\<bar> \<le> 5 / 2 ^ 53\<close> have "0 \<le> x" "x < 10 ^ 21" by linarith+
  then have "toFixed1 x = of_int \<lfloor>x * 10 + 1 / 2\<rfloor> / 10"
    by (simp add: toFixed1_def)
  moreover have "js_div (sum_list vs) (of_nat (length vs)) = x"
    by (simp add: js_div_def x_def m_def S len)
  ultimately show ?thesis
    using tenth_near_mean [OF N err] by (auto simp: S len)
qed

lemma get_doc_delete_doc: "get_doc (delete_doc docs rid) rid = None"
  by (induction docs) (auto simp: get_doc_def delete_doc_def)

lemma get_doc_update_doc:
  "get_doc (update_doc docs rid t r) rid =
     map_option (\<lambda>d. d\<lparr>text' := t, rating := r\<rparr>) (get_doc docs rid)"
  by (induction docs) (auto simp: get_doc_def update_doc_def)

lemma valid_ratings_delete_doc:
  assumes "\<forall>(k, d) \<in> set docs. k \<noteq> rid \<and> gameId d = g \<longrightarrow> rating_in_range (rating d) = None"
  shows "valid_ratings (delete_doc docs rid) g = []"
  using assms
  by (induction docs) (auto simp: valid_ratings_def delete_doc_def split: if_splits)

lemma strict_eq_Null: "strict_eq v Null \<longleftrightarrow> v = Null"
  by (auto simp: strict_eq_def)

lemma addReview_rejected:
  assumes "addReview env uid gid txt rtg s = (res, s')" and "status res \<in> {400, 403, 404}"
  shows "s' = s"
  using assms
  by (auto simp: addReview_def respond_def caught_def Let_def
      split: if_splits prod.splits sum.splits)

lemma updateReview_rejected:
  assumes "updateReview env rid uid txt rtg s = (res, s')" and "status res \<in> {400, 403, 404}"
  shows "s' = s"
  using assms
  by (auto simp: updateReview_def respond_def caught_def Let_def
      split: if_splits prod.splits sum.splits option.splits)

lemma deleteReview_rejected:
  assumes "deleteReview env rid uid isAdmin s = (res, s')" and "status res \<in> {400, 403, 404}"
  shows "s' = s"
  using assms
  by (auto simp: deleteReview_def respond_def caught_def Let_def
      split: if_splits prod.splits sum.splits option.splits)

lemma deleteReviewByAdmin_rejected:
  assumes "deleteReviewByAdmin env rid s = (res, s')" and "status res \<in> {400, 403, 404}"
  shows "s' = s"
  using assms
  by (auto simp: deleteReviewByAdmin_def respond_def caught_def Let_def
      split: if_splits prod.splits sum.splits option.splits)

text \<open>The definitions a concrete run is evaluated with.\<close>

lemma floor_rat_numeral: "\<lfloor>(numeral a :: rat) / numeral b\<rfloor> = numeral a div numeral b"
  using floor_divide_of_int_eq [of "numeral a" "numeral b", where ?'a = rat] by simp

lemmas handler_defs =
  addReview_def updateReview_def deleteReview_def deleteReviewByAdmin_def
  updateGameRating_def respond_def caught_def
  get_doc_def add_doc_def update_doc_def delete_doc_def where_gameId_def
  game_exists_def game_update_def game_field_def invalid_path_def forbidden_char_def
  db_get_def db_exists_def db_set_def db_update_def ref_path_def
  strict_eq_def js_or_def js_lt_def js_gt_def js_ge_def js_le_def
  js_add_def js_div_def parseFloat_def
  decimal_notation_def truncate_toward_zero_def Let_def floor_rat_numeral of_number_def toFixed1_def

lemmas sample_defs =
  env_ok_def env_write_fails_def mk_review_def sample_state_def legacy_state_def tie_state_def

section \<open>The rating aggregator\<close>

text \<open>
  C1, as the code has it. When the query and the write succeed and the game has at most
  \<open>2\<^sup>4\<^sup>6\<close> valid ratings, \<^verbatim>\<open>updateGameRating\<close> returns and writes to the game
  \<open>totalRatings\<close>, the number of the game's reviews whose rating is a number from 1 to 5,
  and \<open>averageRating\<close>: 0 when there is no such review, and otherwise the binary64 value
  that \<^verbatim>\<open>parseFloat\<close> reads from \<^verbatim>\<open>toFixed(1)\<close> of the binary64 quotient of the running
  binary64 sum by the count. When the valid ratings are integers, as the controller
  stores them, the decimal that \<^verbatim>\<open>toFixed(1)\<close> writes is a multiple of one tenth at most
  one twentieth away from the mean of the ratings.
\<close>

theorem updateGameRating_aggregate:
  assumes "\<not> fails env ReviewQuery" and "\<not> fails env GameUpdate"
    and "\<not> invalid_path (''games/'' @ g)"
    and "length (valid_ratings (reviews s) g) \<le> 2 ^ 46"
  shows "let vs = valid_ratings (reviews s) g in
     \<exists>avg s'.
        updateGameRating env g s =
          (Inr \<lparr>averageRating = avg, totalRatings = of_nat (length vs)\<rparr>, s') \<and>
        game_field s' g ''averageRating'' = Some (Num avg) \<and>
        game_field s' g ''totalRatings'' = Some (Num (of_nat (length vs))) \<and>
        (vs = [] \<longrightarrow> avg = 0) \<and>
        (vs \<noteq> [] \<longrightarrow>
           avg = parseFloat (toFixed1 (js_div (foldl js_add 0 vs) (of_nat (length vs))))) \<and>
        (vs \<noteq> [] \<and> set vs \<subseteq> \<int> \<longrightarrow>
           (\<exists>n::int. avg = parseFloat (of_int n / 10) \<and>
              \<bar>of_int n / 10 - sum_list vs / of_nat (length vs)\<bar> \<le> 1 / 20))"
proof -
  define vs where "vs = valid_ratings (reviews s) g"
  define c :: rat where "c = of_nat (length vs)"
  define avg where
    "avg = (if vs = [] then 0 else parseFloat (toFixed1 (js_div (foldl js_add 0 vs) c)))"
  define s' where "s' = s\<lparr>recomputes := recomputes s @ [g],
            games := game_update (games s) g avg c,
            console := console s @ [ConsoleLog g avg c]\<rparr>"
  from assms(4) have len: "length vs \<le> 2 ^ 46" by (simp add: vs_def)
  have "(2::nat) ^ 46 \<le> 2 ^ 53" by simp
  with len have "0 + length vs \<le> 2 ^ 53" by linarith
  from float_count_exact [OF this]
  have count: "foldl (\<lambda>c x. js_add c 1) 0 vs = c" by (simp add: c_def)
  have pos: "0 < c \<longleftrightarrow> vs \<noteq> []" by (simp add: c_def)
  have run: "updateGameRating env g s = (Inr \<lparr>averageRating = avg, totalRatings = c\<rparr>, s')"
    by (simp add: updateGameRating_success [OF assms(1,2,3)] Let_def vs_def [symmetric]
        count pos avg_def s'_def)
  have written: "game_field s' g ''averageRating'' = Some (Num avg)"
      "game_field s' g ''totalRatings'' = Some (Num c)"
    using game_update_written [of "games s" g avg c] by (simp_all add: game_field_def s'_def)
  have bounds: "\<forall>x \<in> set vs. 1 \<le> x \<and> x \<le> 5"
    unfolding vs_def by (blast dest: valid_ratings_bounds)
  have ints: "\<exists>n::int. avg = parseFloat (of_int n / 10) \<and>
              \<bar>of_int n / 10 - sum_list vs / c\<bar> \<le> 1 / 20"
    if ne: "vs \<noteq> []" and iv: "set vs \<subseteq> \<int>"
  proof -
    from len have "(of_nat (length vs) :: rat) \<le> of_nat (2 ^ 46)" by (simp only: of_nat_le_iff)
    then have "0 + 5 * (of_nat (length vs) :: rat) \<le> 2 ^ 53" by simp
    with iv bounds have "foldl js_add 0 vs = 0 + sum_list vs"
      by (intro float_sum_exact) simp_all
    then have sum: "foldl js_add 0 vs = sum_list vs" by simp
    from average_of_integers [OF ne iv bounds len] obtain n :: int where
      n: "toFixed1 (js_div (sum_list vs) (of_nat (length vs))) = of_int n / 10"
         "\<bar>of_int n / 10 - sum_list vs / of_nat (length vs)\<bar> \<le> 1 / 20"
      by blast
    from ne have "avg = parseFloat (of_int n / 10)"
      by (simp only: avg_def sum c_def n(1) if_False)
    with n(2) show ?thesis unfolding c_def by blast
  qed
  from run written ints show ?thesis
    unfolding Let_def vs_def [symmetric] c_def [symmetric] by (auto simp: avg_def)
qed

theorem updateGameRating_aggregate_witness:
  "\<not> fails env_ok ReviewQuery \<and> \<not> fails env_ok GameUpdate \<and>
   \<not> invalid_path (''games/'' @ ''g1'') \<and>
   valid_ratings (reviews sample_state) ''g1'' = [5, 3] \<and>
   (\<exists>avg s'.
      updateGameRating env_ok ''g1'' sample_state =
        (Inr \<lparr>averageRating = avg, totalRatings = 2\<rparr>, s') \<and>
      game_field s' ''g1'' ''averageRating'' = Some (Num avg) \<and>
      game_field s' ''g1'' ''totalRatings'' = Some (Num 2) \<and>
      (\<exists>n::int. avg = parseFloat (of_int n / 10) \<and> \<bar>of_int n / 10 - ((5 + 3) / 2 :: rat)\<bar> \<le> 1 / 20))"
proof -
  have ok: "\<not> fails env_ok ReviewQuery" "\<not> fails env_ok GameUpdate"
      "\<not> invalid_path (''games/'' @ ''g1'')"
    by (simp_all add: env_ok_def invalid_path_def forbidden_char_def)
  have vs: "valid_ratings (reviews sample_state) ''g1'' = [5, 3]"
    by (simp add: sample_state_def valid_ratings_def mk_review_def)
  then have len: "length (valid_ratings (reviews sample_state) ''g1'') \<le> 2 ^ 46" by simp
  from updateGameRating_aggregate [OF ok len]
  obtain avg s' where
    "updateGameRating env_ok ''g1'' sample_state =
        (Inr \<lparr>averageRating = avg, totalRatings = 2\<rparr>, s')"
    "game_field s' ''g1'' ''averageRating'' = Some (Num avg)"
    "game_field s' ''g1'' ''totalRatings'' = Some (Num 2)"
    "\<exists>n::int. avg = parseFloat (of_int n / 10) \<and>
       \<bar>of_int n / 10 - ((5 + 3) / 2 :: rat)\<bar> \<le> 1 / 20"
    unfolding Let_def vs by auto
  with ok vs show ?thesis by blast
qed

text \<open>
  C1, as the specification words it, fails. With the stored ratings \<open>4.25 - 2\<^sup>-\<^sup>5\<^sup>0\<close> and
  \<open>4.25\<close> the sum rounds to 8.5, the quotient is 4.25 and the average is the binary64
  value of 4.3, more than one twentieth away from the mean, which 4.2 is not. With
  seventeen ratings 1 and three ratings 2 the mean is 1.15, which both ways of rounding
  that the specification names take to 1.2; the quotient is the binary64 value just
  below 1.15 and the average is the binary64 value of 1.1.
\<close>

theorem updateGameRating_average_counterexample:
  "valid_ratings (reviews legacy_state) ''g1'' = [17 / 4 - 1 / 2 ^ 50, 17 / 4] \<and>
   fst (updateGameRating env_ok ''g1'' legacy_state) =
     Inr \<lparr>averageRating = 4841369599423283 / 2 ^ 50, totalRatings = 2\<rparr> \<and>
   parseFloat (43 / 10) = 4841369599423283 / 2 ^ 50 \<and>
   1 / 20 < \<bar>4841369599423283 / 2 ^ 50 - ((17 / 4 - 1 / 2 ^ 50) + 17 / 4) / (2 :: rat)\<bar> \<and>
   1 / 20 < \<bar>43 / 10 - ((17 / 4 - 1 / 2 ^ 50) + 17 / 4) / (2 :: rat)\<bar> \<and>
   \<bar>42 / 10 - ((17 / 4 - 1 / 2 ^ 50) + 17 / 4) / (2 :: rat)\<bar> < 1 / 20 \<and>
   sum_list (valid_ratings (reviews tie_state) ''g1'') /
     of_nat (length (valid_ratings (reviews tie_state) ''g1'')) = 23 / 20 \<and>
   fst (updateGameRating env_ok ''g1'' tie_state) =
     Inr \<lparr>averageRating = 2476979795053773 / 2 ^ 51, totalRatings = 20\<rparr> \<and>
   parseFloat (11 / 10) = 2476979795053773 / 2 ^ 51 \<and>
   round1_half_away (23 / 20) = 6 / 5 \<and>
   round1_half_even (23 / 20) = 6 / 5 \<and>
   parseFloat (6 / 5) \<noteq> 2476979795053773 / 2 ^ 51"
proof -
  have ok: "\<not> fails env_ok ReviewQuery" "\<not> fails env_ok GameUpdate"
      "\<not> invalid_path (''games/'' @ ''g1'')"
    by (simp_all add: env_ok_def invalid_path_def forbidden_char_def)
  have l1: "valid_ratings (reviews legacy_state) ''g1'' = [17 / 4 - 1 / 2 ^ 50, 17 / 4]"
    by (simp add: sample_defs valid_ratings_def)
  have f4: "fl (43 / 10) = 4841369599423283 / 2 ^ 50" by code_simp
  have l2: "fst (updateGameRating env_ok ''g1'' legacy_state) =
     Inr \<lparr>averageRating = 4841369599423283 / 2 ^ 50, totalRatings = 2\<rparr>"
    by code_simp
  have t1: "valid_ratings (reviews tie_state) ''g1'' =
      [1, 1, 1, 1, 1, 1, 1, 1, 1, 1, 1, 1, 1, 1, 1, 1, 1, 2, 2, 2]"
    by (simp add: sample_defs valid_ratings_def)
  have g1: "fl (23 / 20) = 2589569785738035 / 2 ^ 51" by code_simp
  have g2: "fl (11 / 10) = 2476979795053773 / 2 ^ 51" by code_simp
  have g3: "fl (6 / 5) = 5404319552844595 / 2 ^ 52" by code_simp
  have t2: "fst (updateGameRating env_ok ''g1'' tie_state) =
     Inr \<lparr>averageRating = 2476979795053773 / 2 ^ 51, totalRatings = 20\<rparr>"
    by (simp add: updateGameRating_success [OF ok] Let_def t1 js_add_def js_div_def
        parseFloat_def toFixed1_def floor_rat_numeral g1 g2)
  have r: "round1_half_away (23 / 20) = 6 / 5" "round1_half_even (23 / 20) = 6 / 5"
    by (simp_all add: round1_half_away_def round1_half_even_def round_half_even_def
        floor_rat_numeral)
  from l1 l2 t1 t2 r show ?thesis
    by (simp add: parseFloat_def f4 g2 g3)
qed

text \<open>
  C8, as the code has it. When \<open>gameId\<close> is one key of the database (not empty, without
  \<^verbatim>\<open>/\<close>), the write of \<^verbatim>\<open>updateGameRating\<close> touches nothing but the children
  \<open>averageRating\<close> and \<open>totalRatings\<close> of that game: every other child of that game
  (title, description, releaseDate, platform, genre, image, ...) and every child of
  every other game reads as before, with all that lies beneath it.
\<close>

theorem updateGameRating_frame:
  assumes "CHR ''/'' \<notin> set g" and "g \<noteq> []"
    and "CHR ''/'' \<notin> set g'" and "g' \<noteq> []"
    and "g' \<noteq> g \<or> (f \<noteq> ''averageRating'' \<and> f \<noteq> ''totalRatings'')"
  shows "game_field (snd (updateGameRating env g s)) g' f = game_field s g' f \<and>
         db_get (games (snd (updateGameRating env g s))) (''games'' # g' # f # rest) =
           db_get (games s) (''games'' # g' # f # rest)"
proof -
  have p: "ref_path (''games/'' @ g') = [''games'', g']"
    unfolding ref_path_games using assms(3,4) by (simp add: ref_path_key)
  have "db_get (games (snd (updateGameRating env g s))) (''games'' # g' # f # r) =
        db_get (games s) (''games'' # g' # f # r)" for r
    using game_update_frame [OF assms(1,2,5)]
    by (auto simp: updateGameRating_def Let_def split: prod.splits)
  from this [of rest] this [of "[]"] show ?thesis
    unfolding game_field_def p by simp
qed

theorem updateGameRating_frame_witness:
  "CHR ''/'' \<notin> set ''g2'' \<and> ''g2'' \<noteq> [] \<and>
   ''title'' \<noteq> ''averageRating'' \<and> ''title'' \<noteq> ''totalRatings'' \<and>
   game_field sample_state ''g2'' ''title'' = Some (Str ''Two'') \<and>
   game_field (snd (updateGameRating env_ok ''g2'' sample_state)) ''g2'' ''title'' =
     game_field sample_state ''g2'' ''title'' \<and>
   game_field sample_state ''g1'' ''averageRating'' = Some (Num 4) \<and>
   game_field (snd (updateGameRating env_ok ''g2'' sample_state)) ''g1'' ''averageRating'' =
     game_field sample_state ''g1'' ''averageRating''"
proof -
  have k: "CHR ''/'' \<notin> set ''g2''" "''g2'' \<noteq> []" "CHR ''/'' \<notin> set ''g1''" "''g1'' \<noteq> []"
    by simp_all
  have a: "''g2'' \<noteq> ''g2'' \<or> (''title'' \<noteq> ''averageRating'' \<and> ''title'' \<noteq> ''totalRatings'')"
    and b: "''g1'' \<noteq> ''g2'' \<or>
            (''averageRating'' \<noteq> ''averageRating'' \<and> ''averageRating'' \<noteq> ''totalRatings'')"
    by simp_all
  have "game_field sample_state ''g2'' ''title'' = Some (Str ''Two'')"
       "game_field sample_state ''g1'' ''averageRating'' = Some (Num 4)"
    by (simp_all add: game_field_def sample_state_def db_get_def ref_path_def)
  with updateGameRating_frame [OF k(1,2) k(1,2) a, of env_ok sample_state "[]"]
    updateGameRating_frame [OF k(1,2) k(3,4) b, of env_ok sample_state "[]"]
  show ?thesis by simp
qed

text \<open>
  C8, as the specification words it, fails. Called with \<^verbatim>\<open>g1/title\<close>, which \<^verbatim>\<open>addReview\<close>
  accepts as the identifier of an existing game, \<^verbatim>\<open>updateGameRating\<close> writes at the path
  \<^verbatim>\<open>games/g1/title\<close>: the title of game \<open>g1\<close> is replaced by a node with the two children.
\<close>

theorem updateGameRating_overwrites_title:
  "game_field sample_state ''g1'' ''title'' = Some (Str ''One'') \<and>
   game_field (snd (updateGameRating env_ok ''g1/title'' sample_state)) ''g1'' ''title'' = None \<and>
   db_get (games (snd (updateGameRating env_ok ''g1/title'' sample_state)))
     [''games'', ''g1'', ''title'', ''averageRating''] = Some (Num 0) \<and>
   db_get (games (snd (updateGameRating env_ok ''g1/title'' sample_state)))
     [''games'', ''g1'', ''title'', ''totalRatings''] = Some (Num 0) \<and>
   status (fst (addReview env_ok ''u1'' ''g1/title'' (Str ''good'') (Num 4) sample_state)) = 201 \<and>
   game_field (snd (addReview env_ok ''u1'' ''g1/title'' (Str ''good'') (Num 4) sample_state))
     ''g1'' ''title'' = None"
  by (simp add: handler_defs sample_defs)

text \<open>
  C9. \<^verbatim>\<open>updateGameRating\<close> is idempotent: called a second time for the same game with
  the reviews as the first call left them, it gives the same result (the same
  \<open>averageRating\<close> and \<open>totalRatings\<close>, or the same error) and leaves the game store
  and the review collection as the first call left them.
\<close>

theorem updateGameRating_idempotent:
  "(let (r1, s1) = updateGameRating env g s;
        (r2, s2) = updateGameRating env g s1
    in r2 = r1 \<and> games s2 = games s1 \<and> reviews s2 = reviews s1)"
proof (cases "updateGameRating env g s")
  case (Pair r1 s1)
  show ?thesis
  proof (cases r1)
    case (Inl e)
    with Pair have f: "fails env ReviewQuery \<or> fails env GameUpdate \<or>
        invalid_path (''games/'' @ g)"
      by (blast dest: updateGameRating_Inl)
    with Pair Inl show ?thesis
      by (auto simp: updateGameRating_def Let_def split: prod.splits if_splits)
  next
    case (Inr r)
    with Pair have ok: "\<not> fails env ReviewQuery" "\<not> fails env GameUpdate"
        "\<not> invalid_path (''games/'' @ g)"
      and s1: "reviews s1 = reviews s"
         "games s1 = game_update (games s) g (averageRating r) (totalRatings r)"
      by (auto dest: updateGameRating_Inr)
    from Pair Inr have "fst (updateGameRating env g s) = Inr r" by simp
    then have r: "fst (updateGameRating env g s1) = Inr r"
      by (simp add: updateGameRating_success [OF ok] Let_def s1)
    obtain r2 s2 where run2: "updateGameRating env g s1 = (r2, s2)"
      by (cases "updateGameRating env g s1")
    with r have r2: "r2 = Inr r" by simp
    from updateGameRating_Inr [OF run2 [unfolded r2]]
    have "games s2 = game_update (games s1) g (averageRating r) (totalRatings r)"
      "reviews s2 = reviews s1" by simp_all
    with Pair Inr s1 run2 r2 show ?thesis
      by (simp add: game_update_idem)
  qed
qed

section \<open>The review lifecycle controller\<close>

text \<open>
  C2. At this request \<^verbatim>\<open>updateReview\<close> calls \<^verbatim>\<open>updateGameRating\<close> although the rating
  does not change: review \<open>r3\<close> is stored with the rating \<^verbatim>\<open>null\<close>, the request of its
  owner carries a new text and no rating, the stored rating is \<^verbatim>\<open>null\<close> afterwards,
  and the game has been recomputed, because \<^verbatim>\<open>undefined !== null\<close>.
\<close>

theorem updateReview_recomputes_unchanged_rating:
  "(let (res, s') = updateReview env_ok ''r3'' ''u3'' (Str ''new'') Undefined sample_state
    in status res = 200 \<and>
       map_option rating (get_doc (reviews sample_state) ''r3'') = Some Null \<and>
       map_option rating (get_doc (reviews s') ''r3'') = Some Null \<and>
       recomputes sample_state = [] \<and>
       recomputes s' = [''g1''])"
  by (simp add: handler_defs sample_defs)

text \<open>
  What the code does in general: when \<^verbatim>\<open>updateReview\<close> answers 200, it has called
  \<^verbatim>\<open>updateGameRating\<close> exactly when the rating of the request is not strictly equal to
  the stored rating.
\<close>

lemma updateReview_recompute_iff:
  assumes "updateReview env rid uid txt rtg s = (res, s')" and "status res = 200"
  shows "\<exists>d. get_doc (reviews s) rid = Some d \<and>
           recomputes s' =
             (if strict_eq rtg (rating d) then recomputes s else recomputes s @ [gameId d])"
  using assms
  by (auto simp: updateReview_def respond_def caught_def Let_def
      dest!: updateGameRating_Inr
      split: if_splits prod.splits sum.splits option.splits)

text \<open>
  C3. At this request \<^verbatim>\<open>addReview\<close> accepts a rating outside the range from 1 to 5: the
  rating 0 is falsy, so the range check is skipped; with a text present the review is
  stored, with the rating \<^verbatim>\<open>null\<close>, and the response is 201.
\<close>

theorem addReview_accepts_rating_zero:
  "addReview env_ok ''u1'' ''g1'' (Str ''hi'') (Num 0) sample_state =
     (\<lparr>status = 201, json = AddedBody ''Review added successfully'' ''r9''\<rparr>,
      sample_state\<lparr>reviews := reviews sample_state @
        [(''r9'', \<lparr>userId = ''u1'', gameId = ''g1'', text' = Str ''hi'', rating = Null,
                  dateTimePosted = ''2024-01-01T00:00:00.000Z''\<rparr>)]\<rparr>)"
  by (simp add: handler_defs sample_defs)

text \<open>
  The other checks of \<^verbatim>\<open>addReview\<close>: a request with neither a text nor a rating is
  answered with 400, a number other than 0 outside the range from 1 to 5 is answered
  with 400, and an unknown game with 404; each leaves the state as it was.
\<close>

lemma addReview_validation:
  shows "\<not> truthy txt \<Longrightarrow> \<not> truthy rtg \<Longrightarrow>
           addReview env uid gid txt rtg s =
             (\<lparr>status = 400, json = ErrorBody ''Must provide either text, rating, or both''\<rparr>, s)"
    and "x \<noteq> 0 \<Longrightarrow> x < 1 \<or> 5 < x \<Longrightarrow>
           addReview env uid gid txt (Num x) s =
             (\<lparr>status = 400, json = ErrorBody ''Rating must be between 1 and 5''\<rparr>, s)"
    and "truthy txt \<or> truthy rtg \<Longrightarrow> \<not> (truthy rtg \<and> (js_lt env rtg 1 \<or> js_gt env rtg 5)) \<Longrightarrow>
         \<not> fails env GameRead \<Longrightarrow> \<not> invalid_path (''games/'' @ gid) \<Longrightarrow>
         \<not> game_exists (games s) gid \<Longrightarrow>
           addReview env uid gid txt rtg s =
             (\<lparr>status = 404, json = ErrorBody ''Game not found''\<rparr>, s)"
  by (auto simp: addReview_def respond_def js_lt_def js_gt_def)




text \<open>
  C5. A request that is answered with 400 (validation), 403 (authorization) or 404 (not
  found) leaves the whole state as it was: the review collection, the game store, the
  console, and no call of \<^verbatim>\<open>updateGameRating\<close>.
\<close>

theorem rejected_request_no_effect:
  assumes "handle env rq s = (res, s')" and "status res \<in> {400, 403, 404}"
  shows "s' = s"
  using assms
  by (cases rq)
    (auto dest: addReview_rejected updateReview_rejected deleteReview_rejected
      deleteReviewByAdmin_rejected)

theorem rejected_request_no_effect_witness:
  "(let (res, s') = handle env_ok (PutReview ''r1'' ''u2'' (Str ''mine now'') (Num 1)) sample_state
    in status res = 403 \<and> status res \<in> {400, 403, 404} \<and> s' = sample_state)"
proof -
  obtain res s' where
    run: "handle env_ok (PutReview ''r1'' ''u2'' (Str ''mine now'') (Num 1)) sample_state = (res, s')"
    by (cases "handle env_ok (PutReview ''r1'' ''u2'' (Str ''mine now'') (Num 1)) sample_state")
  then have st: "status res = 403"
    by (auto simp: handler_defs sample_defs)
  then have "status res \<in> {400, 403, 404}" by simp
  from rejected_request_no_effect [OF run this] run st show ?thesis by simp
qed

text \<open>
  C6. When \<^verbatim>\<open>deleteReview\<close> answers 200, the review is gone from the collection, and
  \<^verbatim>\<open>updateGameRating\<close> has been called for the review's game exactly when the stored
  rating was not \<^verbatim>\<open>null\<close>. If moreover no other review of that game has a valid rating,
  the game's \<open>averageRating\<close> and \<open>totalRatings\<close> are 0 afterwards.
\<close>

theorem deleteReview_success:
  assumes "deleteReview env rid uid isAdmin s = (res, s')" and "status res = 200"
  shows "\<exists>d. get_doc (reviews s) rid = Some d \<and>
           reviews s' = delete_doc (reviews s) rid \<and>
           get_doc (reviews s') rid = None \<and>
           recomputes s' = (if rating d \<noteq> Null then recomputes s @ [gameId d] else recomputes s) \<and>
           (rating d \<noteq> Null \<and>
            (\<forall>(k, d') \<in> set (reviews s).
                k \<noteq> rid \<and> gameId d' = gameId d \<longrightarrow> rating_in_range (rating d') = None) \<longrightarrow>
            game_field s' (gameId d) ''averageRating'' = Some (Num 0) \<and>
            game_field s' (gameId d) ''totalRatings'' = Some (Num 0))"
proof -
  from assms obtain d where d: "get_doc (reviews s) rid = Some d"
    by (auto simp: deleteReview_def respond_def caught_def split: if_splits option.splits)
  let ?s1 = "s\<lparr>reviews := delete_doc (reviews s) rid\<rparr>"
  show ?thesis
  proof (cases "rating d = Null")
    case True
    with assms d have "s' = ?s1"
      by (auto simp: deleteReview_def respond_def caught_def Let_def strict_eq_Null
          split: if_splits)
    with d True show ?thesis by (simp add: get_doc_delete_doc)
  next
    case False
    with assms d obtain r where run: "updateGameRating env (gameId d) ?s1 = (Inr r, s')"
      by (auto simp: deleteReview_def respond_def caught_def Let_def strict_eq_Null
          split: if_splits prod.splits sum.splits)
    from updateGameRating_Inr [OF run]
    have ok: "\<not> fails env ReviewQuery" "\<not> fails env GameUpdate"
        "\<not> invalid_path (''games/'' @ gameId d)"
      and s': "reviews s' = delete_doc (reviews s) rid" "recomputes s' = recomputes s @ [gameId d]"
      by simp_all
    have zero: "game_field s' (gameId d) ''averageRating'' = Some (Num 0) \<and>
            game_field s' (gameId d) ''totalRatings'' = Some (Num 0)"
      if "\<forall>(k, d') \<in> set (reviews s).
                k \<noteq> rid \<and> gameId d' = gameId d \<longrightarrow> rating_in_range (rating d') = None"
    proof -
      from that have "valid_ratings (reviews ?s1) (gameId d) = []"
        by (simp add: valid_ratings_delete_doc)
      with run have "games s' = game_update (games ?s1) (gameId d) 0 0"
        by (auto simp: updateGameRating_success [OF ok] Let_def)
      with game_update_written [of "games ?s1" "gameId d" 0 0] show ?thesis
        by (simp add: game_field_def)
    qed
    from d False s' zero show ?thesis by (simp add: get_doc_delete_doc)
  qed
qed

theorem deleteReview_success_witness:
  "(let (res, s') = deleteReview env_ok ''r4'' ''u1'' (Bool False) sample_state
    in status res = 200 \<and>
       map_option rating (get_doc (reviews sample_state) ''r4'') = Some (Num 2) \<and>
       get_doc (reviews s') ''r4'' = None \<and>
       recomputes s' = recomputes sample_state @ [''g2''] \<and>
       game_field s' ''g2'' ''averageRating'' = Some (Num 0) \<and>
       game_field s' ''g2'' ''totalRatings'' = Some (Num 0))"
proof -
  obtain res s' where
    run: "deleteReview env_ok ''r4'' ''u1'' (Bool False) sample_state = (res, s')"
    by (cases "deleteReview env_ok ''r4'' ''u1'' (Bool False) sample_state")
  then have st: "status res = 200"
    by (auto simp: handler_defs sample_defs)
  have d: "get_doc (reviews sample_state) ''r4'' = Some (mk_review ''u1'' ''g2'' (Str ''weak'') (Num 2))"
    by (simp add: get_doc_def sample_state_def)
  have others: "\<forall>(k, d') \<in> set (reviews sample_state).
      k \<noteq> ''r4'' \<and> gameId d' = ''g2'' \<longrightarrow> rating_in_range (rating d') = None"
    by (simp add: sample_state_def mk_review_def)
  from deleteReview_success [OF run st] d others run st show ?thesis
    by (simp add: mk_review_def get_doc_delete_doc)
qed

text \<open>
  C7. \<^verbatim>\<open>deleteReviewByAdmin\<close> leaves the review collection and the game store as
  \<^verbatim>\<open>deleteReview\<close> with a truthy \<open>isAdmin\<close> does, whoever the requesting user is, calls
  \<^verbatim>\<open>updateGameRating\<close> in the same cases, and answers with the same status.
\<close>

theorem deleteReviewByAdmin_as_deleteReview:
  assumes "truthy isAdmin"
  shows "(let (r1, s1) = deleteReviewByAdmin env rid s;
              (r2, s2) = deleteReview env rid uid isAdmin s
          in reviews s1 = reviews s2 \<and> games s1 = games s2 \<and>
             recomputes s1 = recomputes s2 \<and> status r1 = status r2)"
  using assms
  by (auto simp: deleteReviewByAdmin_def deleteReview_def respond_def caught_def Let_def
      split: prod.splits sum.splits option.splits)

theorem deleteReviewByAdmin_as_deleteReview_witness:
  "truthy (Bool True) \<and>
   (let (r1, s1) = deleteReviewByAdmin env_ok ''r1'' sample_state;
        (r2, s2) = deleteReview env_ok ''r1'' ''moderator'' (Bool True) sample_state
    in reviews s1 = reviews s2 \<and> games s1 = games s2 \<and>
       recomputes s1 = recomputes s2 \<and> status r1 = status r2 \<and>
       status r1 = 200 \<and> recomputes s1 = [''g1''] \<and> get_doc (reviews s1) ''r1'' = None \<and>
       game_field s1 ''g1'' ''averageRating'' = Some (Num 3) \<and>
       game_field s1 ''g1'' ''totalRatings'' = Some (Num 1))"
proof -
  have t: "truthy (Bool True)" by simp
  have "status (fst (deleteReviewByAdmin env_ok ''r1'' sample_state)) = 200 \<and>
        recomputes (snd (deleteReviewByAdmin env_ok ''r1'' sample_state)) = [''g1''] \<and>
        get_doc (reviews (snd (deleteReviewByAdmin env_ok ''r1'' sample_state))) ''r1'' = None \<and>
        game_field (snd (deleteReviewByAdmin env_ok ''r1'' sample_state)) ''g1'' ''averageRating''
          = Some (Num 3) \<and>
        game_field (snd (deleteReviewByAdmin env_ok ''r1'' sample_state)) ''g1'' ''totalRatings''
          = Some (Num 1)"
    by (simp add: handler_defs sample_defs)
  with deleteReviewByAdmin_as_deleteReview [OF t, of env_ok "''r1''" sample_state "''moderator''"]
  show ?thesis
    by (simp add: case_prod_beta)
qed

text \<open>
  C10. When \<^verbatim>\<open>updateReview\<close> answers 200, both stored fields have been overwritten from
  the request: the text is \<^verbatim>\<open>text || null\<close> and the rating is
  \<^verbatim>\<open>rating ? parseInt(rating) : null\<close>. A request without text leaves the stored text
  \<^verbatim>\<open>null\<close>, and a request without rating leaves the stored rating \<^verbatim>\<open>null\<close>.
\<close>

theorem updateReview_overwrites:
  assumes "updateReview env rid uid txt rtg s = (res, s')" and "status res = 200"
  shows "\<exists>d. get_doc (reviews s) rid = Some d \<and>
           get_doc (reviews s') rid =
             Some (d\<lparr>text' := js_or txt Null,
                     rating := (if truthy rtg then parseInt env rtg else Null)\<rparr>) \<and>
           (txt = Undefined \<longrightarrow> map_option text' (get_doc (reviews s') rid) = Some Null) \<and>
           (rtg = Undefined \<longrightarrow> map_option rating (get_doc (reviews s') rid) = Some Null)"
proof -
  from assms obtain d where d: "get_doc (reviews s) rid = Some d"
    by (auto simp: updateReview_def respond_def caught_def split: if_splits option.splits)
  let ?docs = "update_doc (reviews s) rid (js_or txt Null)
                 (if truthy rtg then parseInt env rtg else Null)"
  from assms d have "reviews s' = ?docs"
    by (auto simp: updateReview_def respond_def caught_def Let_def
        dest!: updateGameRating_Inr
        split: if_splits prod.splits sum.splits)
  with d show ?thesis
    by (auto simp: get_doc_update_doc js_or_def)
qed

theorem updateReview_overwrites_witness:
  "(let (res, s') = updateReview env_ok ''r2'' ''u2'' Undefined (Num 4) sample_state
    in status res = 200 \<and>
       map_option text' (get_doc (reviews sample_state) ''r2'') = Some (Str ''fine'') \<and>
       map_option text' (get_doc (reviews s') ''r2'') = Some Null \<and>
       map_option rating (get_doc (reviews s') ''r2'') = Some (Num 4)) \<and>
   (let (res, s') = updateReview env_ok ''r2'' ''u2'' (Str ''better'') Undefined sample_state
    in status res = 200 \<and>
       map_option rating (get_doc (reviews sample_state) ''r2'') = Some (Num 3) \<and>
       map_option text' (get_doc (reviews s') ''r2'') = Some (Str ''better'') \<and>
       map_option rating (get_doc (reviews s') ''r2'') = Some Null)"
proof -
  obtain res1 s1 where
    run1: "updateReview env_ok ''r2'' ''u2'' Undefined (Num 4) sample_state = (res1, s1)"
    by (cases "updateReview env_ok ''r2'' ''u2'' Undefined (Num 4) sample_state")
  then have st1: "status res1 = 200"
    by (auto simp: handler_defs sample_defs)
  obtain res2 s2 where
    run2: "updateReview env_ok ''r2'' ''u2'' (Str ''better'') Undefined sample_state = (res2, s2)"
    by (cases "updateReview env_ok ''r2'' ''u2'' (Str ''better'') Undefined sample_state")
  then have st2: "status res2 = 200"
    by (auto simp: handler_defs sample_defs)
  have d: "get_doc (reviews sample_state) ''r2'' = Some (mk_review ''u2'' ''g1'' (Str ''fine'') (Num 3))"
    by (simp add: get_doc_def sample_state_def)
  have p: "parseInt env_ok (Num 4) = Num 4"
    by (simp add: decimal_notation_def truncate_toward_zero_def)
  from updateReview_overwrites [OF run1 st1] updateReview_overwrites [OF run2 st2]
    d p run1 run2 st1 st2
  show ?thesis
    by (simp add: mk_review_def js_or_def)
qed

end
